theory Spec2Isabelle
  imports Complex_Main "HOL-Library.Multiset"
begin

section \<open>Python values\<close>

text \<open>
  A Python \<open>str\<close> is a sequence of Unicode code points; \<open>len\<close> counts code points and
  \<open>chr\<close> builds a one-character string from a code point. Strings are therefore lists of
  code points, and \<open>lit\<close> turns an ASCII literal of the source into such a list.
\<close>

type_synonym pystr = "nat list"

definition lit :: "string \<Rightarrow> pystr" where
  "lit s = map of_char s"

text \<open>
  The value \<open>json.loads\<close> returns: \<open>None\<close>, \<open>bool\<close>, \<open>int\<close>, \<open>float\<close>, \<open>str\<close>, \<open>list\<close> and
  \<open>dict\<close> (keys in insertion order). A float is a finite one, carried as the real number
  it denotes (\<open>JFloat\<close>), an infinity with its sign (\<open>JInfinity True\<close> is \<open>inf\<close>, what
  \<open>json.loads\<close> gives for \<open>Infinity\<close> and for a literal too large for a double such as
  \<open>1e999\<close>), or \<open>nan\<close>.
\<close>

datatype json =
    JNull
  | JBool bool
  | JInt int
  | JFloat real
  | JInfinity bool
  | JNaN
  | JStr pystr
  | JArr "json list"
  | JObj "(pystr \<times> json) list"

datatype py_error =
    FileNotFoundError
  | JSONDecodeError
  | UnicodeDecodeError
  | RecursionError
  | KeyError pystr
  | TypeError
  | AttributeError
  | IndexError
  | ValueError
  | OverflowError
  | NameError pystr

section \<open>Ledger reader\<close>

text \<open>
  What one access to \<open>data/ledger.json\<close> finds. A concurrent writer may change the file
  between two accesses, so the file is a function from the number of the access to what
  that access observes. \<open>Undecodable\<close> is a file whose bytes \<open>f.read()\<close> cannot decode
  in text mode.
\<close>

datatype fobs = Absent | Text pystr | Undecodable

text \<open>
  The reader's view of the outside: how many times the file was accessed and opened, and
  the time that passed in sleeps, in tenths of a second.
\<close>

record world =
  accesses :: nat
  opens :: nat
  now :: nat

definition ledger_exists :: "(nat \<Rightarrow> fobs) \<Rightarrow> world \<Rightarrow> bool \<times> world" where
  "ledger_exists file w =
     (file (accesses w) \<noteq> Absent, w\<lparr>accesses := accesses w + 1\<rparr>)"

text \<open>
  The body of each \<open>try\<close> block: open the file, read it, return \<open>[]\<close> for empty content
  and \<open>json.loads(content)\<close> otherwise. \<open>json.loads\<close> is a parameter \<open>loads\<close>.
\<close>

definition read_and_parse ::
  "(nat \<Rightarrow> fobs) \<Rightarrow> (pystr \<Rightarrow> py_error + json) \<Rightarrow> world \<Rightarrow> (py_error + json) \<times> world" where
  "read_and_parse file loads w =
     (let w' = w\<lparr>accesses := accesses w + 1, opens := opens w + 1\<rparr>
      in case file (accesses w) of
           Absent \<Rightarrow> (Inl FileNotFoundError, w')
         | Undecodable \<Rightarrow> (Inl UnicodeDecodeError, w')
         | Text content \<Rightarrow>
             if content = [] then (Inr (JArr []), w') else (loads content, w'))"

text \<open>The clause \<open>except (json.JSONDecodeError, FileNotFoundError)\<close>.\<close>

definition caught :: "py_error \<Rightarrow> bool" where
  "caught e = (e = JSONDecodeError \<or> e = FileNotFoundError)"

definition sleep_100ms :: "world \<Rightarrow> world" where
  "sleep_100ms w = w\<lparr>now := now w + 1\<rparr>"

definition load_ledger ::
  "(nat \<Rightarrow> fobs) \<Rightarrow> (pystr \<Rightarrow> py_error + json) \<Rightarrow> world \<Rightarrow> (py_error + json) \<times> world" where
  "load_ledger file loads w =
     (let (present, w1) = ledger_exists file w
      in if \<not> present then (Inr (JArr []), w1)
         else (let (first, w2) = read_and_parse file loads w1
               in case first of
                    Inr v \<Rightarrow> (Inr v, w2)
                  | Inl e \<Rightarrow>
                      if \<not> caught e then (Inl e, w2)
                      else (let (second, w3) = read_and_parse file loads (sleep_100ms w2)
                            in case second of
                                 Inr v \<Rightarrow> (Inr v, w3)
                               | Inl e' \<Rightarrow>
                                   if caught e' then (Inr (JArr []), w3) else (Inl e', w3))))"

definition world0 :: world where
  "world0 = \<lparr>accesses = 0, opens = 0, now = 0\<rparr>"

text \<open>
  The document states the reader is written for: every access finds the file absent or
  finds text, and \<open>json.loads\<close> fails with \<open>JSONDecodeError\<close> only. An attempt fails in a
  way the \<open>except\<close> clause handles when the file is absent or its text does not parse.
\<close>

definition readable :: "(nat \<Rightarrow> fobs) \<Rightarrow> bool" where
  "readable file = (\<forall>n. file n \<noteq> Undecodable)"

definition decode_errors_only :: "(pystr \<Rightarrow> py_error + json) \<Rightarrow> bool" where
  "decode_errors_only loads = (\<forall>c e. loads c = Inl e \<longrightarrow> e = JSONDecodeError)"

definition attempt_fails :: "(nat \<Rightarrow> fobs) \<Rightarrow> (pystr \<Rightarrow> py_error + json) \<Rightarrow> nat \<Rightarrow> bool" where
  "attempt_fails file loads n =
     (case file n of
        Absent \<Rightarrow> True
      | Text c \<Rightarrow> c \<noteq> [] \<and> loads c = Inl JSONDecodeError
      | Undecodable \<Rightarrow> False)"

text \<open>Sample documents and a parser that knows one document, for concrete runs.\<close>

definition sample_loads :: "pystr \<Rightarrow> py_error + json" where
  "sample_loads c = (if c = lit ''[7]'' then Inr (JArr [JInt 7]) else Inl JSONDecodeError)"

definition absent_file :: "nat \<Rightarrow> fobs" where
  "absent_file n = Absent"

definition empty_file :: "nat \<Rightarrow> fobs" where
  "empty_file n = Text []"

definition truncated_file :: "nat \<Rightarrow> fobs" where
  "truncated_file n = Text (lit ''[7'')"

definition undecodable_file :: "nat \<Rightarrow> fobs" where
  "undecodable_file n = Undecodable"



section \<open>Ledger reshaper\<close>

definition and_then :: "'e + 'a \<Rightarrow> ('a \<Rightarrow> 'e + 'b) \<Rightarrow> 'e + 'b" where
  "and_then r f = (case r of Inl e \<Rightarrow> Inl e | Inr v \<Rightarrow> f v)"

text \<open>A \<open>dict\<close> keeps its keys in insertion order; assigning to a present key keeps its place.\<close>

fun dict_set :: "('k \<times> 'v) list \<Rightarrow> 'k \<Rightarrow> 'v \<Rightarrow> ('k \<times> 'v) list" where
  "dict_set [] k v = [(k, v)]"
| "dict_set ((k', v') # d) k v =
     (if k' = k then (k, v) # d else (k', v') # dict_set d k v)"

definition dict_update :: "('k \<times> 'v) list \<Rightarrow> ('k \<times> 'v) list \<Rightarrow> ('k \<times> 'v) list" where
  "dict_update d kvs = fold (\<lambda>(k, v) acc. dict_set acc k v) kvs d"

text \<open>\<open>entry[key]\<close>: only a \<open>dict\<close> can be subscripted with a string.\<close>

fun subscript :: "json \<Rightarrow> pystr \<Rightarrow> py_error + json" where
  "subscript (JObj d) k = (case map_of d k of None \<Rightarrow> Inl (KeyError k) | Some v \<Rightarrow> Inr v)"
| "subscript _ k = Inl TypeError"

text \<open>\<open>entry.get(key, default)\<close> and \<open>value.items()\<close>: methods of \<open>dict\<close> only.\<close>

fun get_default :: "json \<Rightarrow> pystr \<Rightarrow> json \<Rightarrow> py_error + json" where
  "get_default (JObj d) k dflt = Inr (case map_of d k of None \<Rightarrow> dflt | Some v \<Rightarrow> v)"
| "get_default _ k dflt = Inl AttributeError"

fun items :: "json \<Rightarrow> py_error + (pystr \<times> json) list" where
  "items (JObj d) = Inr d"
| "items _ = Inl AttributeError"

text \<open>\<open>not ledger\<close>: the values Python treats as false.\<close>

fun falsy :: "json \<Rightarrow> bool" where
  "falsy JNull = True"
| "falsy (JBool b) = (\<not> b)"
| "falsy (JInt i) = (i = 0)"
| "falsy (JFloat r) = (r = 0)"
| "falsy (JInfinity positive) = False"
| "falsy JNaN = False"
| "falsy (JStr s) = (s = [])"
| "falsy (JArr xs) = (xs = [])"
| "falsy (JObj d) = (d = [])"

text \<open>\<open>for entry in ledger\<close>: a list yields its elements, a dict its keys, a string its characters.\<close>

fun iterate :: "json \<Rightarrow> py_error + json list" where
  "iterate (JArr xs) = Inr xs"
| "iterate (JObj d) = Inr (map (\<lambda>(k, v). JStr k) d)"
| "iterate (JStr s) = Inr (map (\<lambda>c. JStr [c]) s)"
| "iterate _ = Inl TypeError"

definition prefixed :: "(pystr \<times> json) list \<Rightarrow> (pystr \<times> json) list" where
  "prefixed kvs = dict_update [] (map (\<lambda>(k, v). (lit ''Store_'' @ k, v)) kvs)"

definition row_of_entry :: "json \<Rightarrow> py_error + (pystr \<times> json) list" where
  "row_of_entry entry =
     and_then (subscript entry (lit ''round'')) (\<lambda>r.
     and_then (subscript entry (lit ''timestamp'')) (\<lambda>t.
     and_then (subscript entry (lit ''global_accuracy'')) (\<lambda>g.
     and_then (subscript entry (lit ''ipfs_hash'')) (\<lambda>h.
     and_then (subscript entry (lit ''block_tx'')) (\<lambda>b.
     and_then (get_default entry (lit ''notes'') (JStr [])) (\<lambda>n.
     and_then (subscript entry (lit ''node_accuracies'')) (\<lambda>na.
     and_then (items na) (\<lambda>kvs.
       Inr (dict_update
             [(lit ''round'', r), (lit ''timestamp'', t), (lit ''global_accuracy'', g),
              (lit ''ipfs_hash'', h), (lit ''block_tx'', b), (lit ''notes'', n)]
             (prefixed kvs))))))))))"

fun build_rows :: "json list \<Rightarrow> py_error + (pystr \<times> json) list list" where
  "build_rows [] = Inr []"
| "build_rows (entry # rest) =
     and_then (row_of_entry entry) (\<lambda>row.
     and_then (build_rows rest) (\<lambda>rows. Inr (row # rows)))"

text \<open>
  A table cell holds a Python value or the marker pandas puts where a row's dict has no
  such key (\<open>NaN\<close>, "no value").
\<close>

datatype cell = Val json | NaN

record dataframe =
  df_columns :: "pystr list"
  df_rows :: "cell list list"

definition empty_frame :: dataframe where
  "empty_frame = \<lparr>df_columns = [], df_rows = []\<rparr>"

text \<open>\<open>df.empty\<close>: some axis has length zero.\<close>

definition df_empty :: "dataframe \<Rightarrow> bool" where
  "df_empty df = (df_columns df = [] \<or> df_rows df = [])"

text \<open>
  \<open>pd.DataFrame(rows)\<close> for a list of dicts: the columns are the keys in order of first
  appearance, and each row holds its dict's value or \<open>NaN\<close> in every column.
\<close>

definition first_seen :: "'a list \<Rightarrow> 'a list" where
  "first_seen xs = rev (remdups (rev xs))"

definition frame_row :: "pystr list \<Rightarrow> (pystr \<times> json) list \<Rightarrow> cell list" where
  "frame_row cols d = map (\<lambda>c. case map_of d c of None \<Rightarrow> NaN | Some v \<Rightarrow> Val v) cols"

definition DataFrame :: "(pystr \<times> json) list list \<Rightarrow> dataframe" where
  "DataFrame dicts =
     (let cols = first_seen (concat (map (map fst) dicts))
      in \<lparr>df_columns = cols, df_rows = map (frame_row cols) dicts\<rparr>)"

definition cell_at :: "pystr list \<Rightarrow> cell list \<Rightarrow> pystr \<Rightarrow> cell option" where
  "cell_at cols row c = map_of (zip cols row) c"

text \<open>
  \<open>df.sort_values("round")\<close> is pandas code; it is a parameter \<open>sort_values\<close> of the
  reshaper. \<open>reset_index(drop=True)\<close> renumbers the rows, which are positional here.
\<close>

definition ledger_to_df ::
  "(pystr \<Rightarrow> dataframe \<Rightarrow> py_error + dataframe) \<Rightarrow> json \<Rightarrow> py_error + dataframe" where
  "ledger_to_df sort_values ledger =
     (if falsy ledger then Inr empty_frame
      else and_then (iterate ledger) (\<lambda>entries.
           and_then (build_rows entries) (\<lambda>rows.
             sort_values (lit ''round'') (DataFrame rows))))"

text \<open>
  What pandas documents for \<open>sort_values\<close> with its default \<open>kind='quicksort'\<close> on a present
  column of integers: the result has the same columns, its rows are a rearrangement of
  the input rows, and the column is ascending. Only \<open>kind='stable'\<close> and \<open>'mergesort'\<close> are documented as
  stable.
\<close>

definition int_key :: "pystr list \<Rightarrow> pystr \<Rightarrow> cell list \<Rightarrow> int" where
  "int_key cols c row = (case cell_at cols row c of Some (Val (JInt i)) \<Rightarrow> i | _ \<Rightarrow> 0)"

definition int_column :: "dataframe \<Rightarrow> pystr \<Rightarrow> bool" where
  "int_column df c =
     (\<forall>row \<in> set (df_rows df). \<exists>i. cell_at (df_columns df) row c = Some (Val (JInt i)))"

definition sort_values_contract :: "(pystr \<Rightarrow> dataframe \<Rightarrow> py_error + dataframe) \<Rightarrow> bool" where
  "sort_values_contract sort_values =
     (\<forall>c df. c \<in> set (df_columns df) \<and> int_column df c \<longrightarrow>
        (\<exists>rs. sort_values c df = Inr \<lparr>df_columns = df_columns df, df_rows = rs\<rparr>
            \<and> mset rs = mset (df_rows df)
            \<and> sorted (map (int_key (df_columns df) c) rs)))"

text \<open>A sort that meets this contract, for concrete runs: it keeps equal keys in input order.\<close>

definition stable_sort_values :: "pystr \<Rightarrow> dataframe \<Rightarrow> py_error + dataframe" where
  "stable_sort_values c df =
     (if c \<in> set (df_columns df)
      then Inr (df\<lparr>df_rows := sort_key (int_key (df_columns df) c) (df_rows df)\<rparr>)
      else Inl (KeyError c))"

text \<open>
  A record as the ledger document's format describes it: an object with an integer
  \<open>round\<close>, strings \<open>timestamp\<close>, \<open>ipfs_hash\<close> and \<open>block_tx\<close>, a number \<open>global_accuracy\<close>, an
  object \<open>node_accuracies\<close> of numbers, and \<open>notes\<close> absent or a string.
\<close>

fun is_number :: "json \<Rightarrow> bool" where
  "is_number (JInt i) = True"
| "is_number (JFloat r) = True"
| "is_number _ = False"

fun is_string :: "json \<Rightarrow> bool" where
  "is_string (JStr s) = True"
| "is_string _ = False"

fun is_integer :: "json \<Rightarrow> bool" where
  "is_integer (JInt i) = True"
| "is_integer _ = False"

fun is_number_object :: "json \<Rightarrow> bool" where
  "is_number_object (JObj kvs) = (distinct (map fst kvs) \<and> list_all (\<lambda>(k, v). is_number v) kvs)"
| "is_number_object _ = False"

definition has_field :: "(pystr \<times> json) list \<Rightarrow> string \<Rightarrow> (json \<Rightarrow> bool) \<Rightarrow> bool" where
  "has_field d name ok = (case map_of d (lit name) of None \<Rightarrow> False | Some v \<Rightarrow> ok v)"

fun well_formed_record :: "json \<Rightarrow> bool" where
  "well_formed_record (JObj d) =
     (has_field d ''round'' is_integer \<and> has_field d ''timestamp'' is_string
      \<and> has_field d ''global_accuracy'' is_number \<and> has_field d ''ipfs_hash'' is_string
      \<and> has_field d ''block_tx'' is_string \<and> has_field d ''node_accuracies'' is_number_object
      \<and> (case map_of d (lit ''notes'') of None \<Rightarrow> True | Some v \<Rightarrow> is_string v))"
| "well_formed_record _ = False"

text \<open>The node identifiers of a record, and the dict the reshaper builds for it.\<close>

definition node_accuracies :: "json \<Rightarrow> (pystr \<times> json) list" where
  "node_accuracies entry =
     (case subscript entry (lit ''node_accuracies'') of Inr (JObj kvs) \<Rightarrow> kvs | _ \<Rightarrow> [])"

definition entry_row :: "json \<Rightarrow> (pystr \<times> json) list" where
  "entry_row entry = (case row_of_entry entry of Inr row \<Rightarrow> row | Inl e \<Rightarrow> [])"

definition fixed_columns :: "pystr list" where
  "fixed_columns = [lit ''round'', lit ''timestamp'', lit ''global_accuracy'',
                    lit ''ipfs_hash'', lit ''block_tx'', lit ''notes'']"

section \<open>Display formatter\<close>

text \<open>The slices \<open>s[:a]\<close> and \<open>s[a:]\<close>: a negative bound counts from the end.\<close>

definition slice_to :: "'a list \<Rightarrow> int \<Rightarrow> 'a list" where
  "slice_to s a = (if 0 \<le> a then take (nat a) s else take (nat (int (length s) + a)) s)"

definition slice_from :: "'a list \<Rightarrow> int \<Rightarrow> 'a list" where
  "slice_from s a = (if 0 \<le> a then drop (nat a) s else drop (nat (int (length s) + a)) s)"

fun is_str :: "cell \<Rightarrow> bool" where
  "is_str (Val (JStr s)) = True"
| "is_str _ = False"

definition truncate_hash :: "cell \<Rightarrow> int \<Rightarrow> int \<Rightarrow> cell" where
  "truncate_hash hash_string start_chars end_chars =
     (case hash_string of
        Val (JStr s) \<Rightarrow>
          if int (length s) > start_chars + end_chars
          then Val (JStr (slice_to s start_chars @ lit ''...'' @ slice_from s (- end_chars)))
          else hash_string
      | _ \<Rightarrow> hash_string)"

definition sample_hash :: pystr where
  "sample_hash = lit ''0x008a3ef87cb15c2490b8e3029a356812b217e8c2e49389c62945eb125a25722a''"

definition startswith :: "pystr \<Rightarrow> pystr \<Rightarrow> bool" where
  "startswith s p = (take (length p) s = p)"

definition store_columns :: "pystr list \<Rightarrow> pystr list" where
  "store_columns cols = filter (\<lambda>col. startswith col (lit ''Store_'')) cols"

text \<open>\<open>chr(n)\<close> raises \<open>ValueError\<close> outside the range of code points.\<close>

definition py_chr :: "nat \<Rightarrow> py_error + pystr" where
  "py_chr n = (if n < 1114112 then Inr [n] else Inl ValueError)"

text \<open>
  The loop \<open>for i, col in enumerate(cols): name_map[col] = f"Store_{chr(65 + i)}"\<close>, which
  the source runs on the display table's node columns and on those of the round-10 row.
\<close>

fun alias_loop :: "nat \<Rightarrow> pystr list \<Rightarrow> (pystr \<times> pystr) list \<Rightarrow> py_error + (pystr \<times> pystr) list" where
  "alias_loop i [] name_map = Inr name_map"
| "alias_loop i (col # cols) name_map =
     and_then (py_chr (65 + i)) (\<lambda>ch.
       alias_loop (Suc i) cols (dict_set name_map col (lit ''Store_'' @ ch)))"

definition alias_map :: "pystr list \<Rightarrow> py_error + (pystr \<times> pystr) list" where
  "alias_map cols = alias_loop 0 cols []"

definition aliases :: "pystr list \<Rightarrow> py_error + pystr list" where
  "aliases cols = and_then (alias_map cols) (\<lambda>name_map. Inr (map snd name_map))"

definition rename_columns :: "(pystr \<times> pystr) list \<Rightarrow> dataframe \<Rightarrow> dataframe" where
  "rename_columns name_map df =
     df\<lparr>df_columns := map (\<lambda>c. case map_of name_map c of None \<Rightarrow> c | Some a \<Rightarrow> a) (df_columns df)\<rparr>"

text \<open>\<open>df.tail(n)\<close>: the last \<open>n\<close> rows, and for negative \<open>n\<close> all rows but the first \<open>-n\<close>.\<close>

definition df_tail :: "int \<Rightarrow> dataframe \<Rightarrow> dataframe" where
  "df_tail n df =
     df\<lparr>df_rows := (if n = 0 then []
                    else if 0 < n then drop (length (df_rows df) - nat n) (df_rows df)
                    else drop (nat (- n)) (df_rows df))\<rparr>"

definition apply_column :: "(cell \<Rightarrow> cell) \<Rightarrow> pystr \<Rightarrow> dataframe \<Rightarrow> py_error + dataframe" where
  "apply_column f c df =
     (if c \<in> set (df_columns df)
      then Inr (df\<lparr>df_rows :=
                  map (\<lambda>row. map (\<lambda>(col, v). if col = c then f v else v) (zip (df_columns df) row))
                    (df_rows df)\<rparr>)
      else Inl (KeyError c))"

definition iloc_last :: "dataframe \<Rightarrow> py_error + cell list" where
  "iloc_last df = (if df_rows df = [] then Inl IndexError else Inr (last (df_rows df)))"

definition iloc_second_last :: "dataframe \<Rightarrow> py_error + cell list" where
  "iloc_second_last df =
     (if length (df_rows df) < 2 then Inl IndexError
      else Inr (df_rows df ! (length (df_rows df) - 2)))"

definition getitem :: "pystr list \<Rightarrow> cell list \<Rightarrow> pystr \<Rightarrow> py_error + cell" where
  "getitem cols row c = (case cell_at cols row c of None \<Rightarrow> Inl (KeyError c) | Some v \<Rightarrow> Inr v)"

definition series_get :: "pystr list \<Rightarrow> cell list \<Rightarrow> pystr \<Rightarrow> cell \<Rightarrow> cell" where
  "series_get cols row c dflt = (case cell_at cols row c of None \<Rightarrow> dflt | Some v \<Rightarrow> v)"

text \<open>
  The numbers of lines 166 to 168. A float is a finite double, an infinity with its sign,
  or \<open>nan\<close>; a number is an \<open>int\<close> or a float. A float operation on finite operands gives
  the double nearest to the exact result, or an infinity when that is out of range: this
  rounding is IEEE 754's, a parameter \<open>round_float\<close>. An \<open>int\<close> operation is exact.
\<close>

datatype pyfloat = Finite real | Infinity bool | NotANumber

datatype pynum = IntNum int | FloatNum pyfloat

text \<open>
  The number in a cell: the missing-value marker is the float \<open>nan\<close>, and a value that is no
  number (\<open>None\<close>, a \<open>bool\<close> of a pandas column, a string, a list, a dict) has no subtraction
  and no product with 100 that is a number, \<open>TypeError\<close>.
\<close>

fun to_number :: "cell \<Rightarrow> py_error + pynum" where
  "to_number (Val (JInt i)) = Inr (IntNum i)"
| "to_number (Val (JFloat r)) = Inr (FloatNum (Finite r))"
| "to_number (Val (JInfinity positive)) = Inr (FloatNum (Infinity positive))"
| "to_number (Val JNaN) = Inr (FloatNum NotANumber)"
| "to_number NaN = Inr (FloatNum NotANumber)"
| "to_number _ = Inl TypeError"

text \<open>\<open>x - y\<close> on floats: \<open>inf - inf\<close> is \<open>nan\<close>, and \<open>nan\<close> is absorbing.\<close>

fun float_minus :: "(real \<Rightarrow> pyfloat) \<Rightarrow> pyfloat \<Rightarrow> pyfloat \<Rightarrow> pyfloat" where
  "float_minus round_float (Finite a) (Finite b) = round_float (a - b)"
| "float_minus round_float (Finite a) (Infinity positive) = Infinity (\<not> positive)"
| "float_minus round_float (Infinity positive) (Finite b) = Infinity positive"
| "float_minus round_float (Infinity positive) (Infinity positive') =
     (if positive = positive' then NotANumber else Infinity positive)"
| "float_minus round_float NotANumber y = NotANumber"
| "float_minus round_float x NotANumber = NotANumber"

text \<open>\<open>x * k\<close> for a float and the \<open>int\<close> literal \<open>k\<close>.\<close>

fun float_times :: "(real \<Rightarrow> pyfloat) \<Rightarrow> pyfloat \<Rightarrow> int \<Rightarrow> pyfloat" where
  "float_times round_float (Finite a) k = round_float (a * of_int k)"
| "float_times round_float (Infinity positive) k =
     (if k = 0 then NotANumber else Infinity (positive = (0 < k)))"
| "float_times round_float NotANumber k = NotANumber"

text \<open>The float an \<open>int\<close> is converted to when the other operand is a float.\<close>

fun to_float :: "(real \<Rightarrow> pyfloat) \<Rightarrow> pynum \<Rightarrow> pyfloat" where
  "to_float round_float (IntNum i) = round_float (of_int i)"
| "to_float round_float (FloatNum x) = x"

fun minus_num :: "(real \<Rightarrow> pyfloat) \<Rightarrow> pynum \<Rightarrow> pynum \<Rightarrow> pynum" where
  "minus_num round_float (IntNum a) (IntNum b) = IntNum (a - b)"
| "minus_num round_float (FloatNum x) b =
     FloatNum (float_minus round_float x (to_float round_float b))"
| "minus_num round_float (IntNum a) (FloatNum y) =
     FloatNum (float_minus round_float (to_float round_float (IntNum a)) y)"

fun times_num :: "(real \<Rightarrow> pyfloat) \<Rightarrow> pynum \<Rightarrow> int \<Rightarrow> pynum" where
  "times_num round_float (IntNum a) k = IntNum (a * k)"
| "times_num round_float (FloatNum x) k = FloatNum (float_times round_float x k)"

text \<open>
  Lines 166 and 167: \<open>prev_acc\<close> is the second-last row's accuracy when the table has more
  than one row and the latest row's otherwise; \<open>delta = (latest - prev_acc) * 100\<close>.
\<close>

definition previous_accuracy :: "dataframe \<Rightarrow> cell list \<Rightarrow> py_error + cell" where
  "previous_accuracy df latest =
     (if length (df_rows df) > 1
      then and_then (iloc_second_last df) (\<lambda>row. getitem (df_columns df) row (lit ''global_accuracy''))
      else getitem (df_columns df) latest (lit ''global_accuracy''))"

definition accuracy_delta ::
  "(real \<Rightarrow> pyfloat) \<Rightarrow> dataframe \<Rightarrow> cell list \<Rightarrow> py_error + pynum" where
  "accuracy_delta round_float df latest =
     and_then (previous_accuracy df latest) (\<lambda>prev_acc.
     and_then (getitem (df_columns df) latest (lit ''global_accuracy'')) (\<lambda>latest_acc.
     and_then (to_number latest_acc) (\<lambda>a.
     and_then (to_number prev_acc) (\<lambda>b.
       Inr (times_num round_float (minus_num round_float a b) 100)))))"

text \<open>\<open>int(x)\<close>; the conversion of a string is Python's, a parameter \<open>int_of_str\<close>.\<close>

fun py_int :: "(pystr \<Rightarrow> py_error + int) \<Rightarrow> cell \<Rightarrow> py_error + int" where
  "py_int int_of_str (Val (JInt i)) = Inr i"
| "py_int int_of_str (Val (JFloat r)) = Inr (if 0 \<le> r then \<lfloor>r\<rfloor> else \<lceil>r\<rceil>)"
| "py_int int_of_str (Val (JInfinity positive)) = Inl OverflowError"
| "py_int int_of_str (Val JNaN) = Inl ValueError"
| "py_int int_of_str (Val (JBool b)) = Inr (if b then 1 else 0)"
| "py_int int_of_str (Val (JStr s)) = int_of_str s"
| "py_int int_of_str NaN = Inl ValueError"
| "py_int int_of_str _ = Inl TypeError"

text \<open>
  Line 181: \<open>timestamp.split("T")[1].split(".")[0] if "T" in timestamp else timestamp\<close>
  (84 is \<open>T\<close>, 46 is the full stop).
\<close>

fun last_update :: "cell \<Rightarrow> py_error + cell" where
  "last_update (Val (JStr s)) =
     Inr (Val (JStr (if 84 \<in> set s
                     then takeWhile (\<lambda>c. c \<noteq> 46) (takeWhile (\<lambda>c. c \<noteq> 84) (tl (dropWhile (\<lambda>c. c \<noteq> 84) s)))
                     else s)))"
| "last_update (Val (JArr xs)) =
     (if JStr [84] \<in> set xs then Inl AttributeError else Inr (Val (JArr xs)))"
| "last_update (Val (JObj d)) =
     (if [84] \<in> set (map fst d) then Inl AttributeError else Inr (Val (JObj d)))"
| "last_update _ = Inl TypeError"

definition require_columns :: "pystr list \<Rightarrow> dataframe \<Rightarrow> py_error + unit" where
  "require_columns cs df =
     (case filter (\<lambda>c. c \<notin> set (df_columns df)) cs of [] \<Rightarrow> Inr () | c # _ \<Rightarrow> Inl (KeyError c))"

text \<open>Lines 201 to 224: the node performance panel for round 10.\<close>

datatype panel = NotYetAvailable | NoPerformanceData | Bars "(pystr \<times> cell) list"

fun equals_10 :: "cell \<Rightarrow> bool" where
  "equals_10 (Val (JInt i)) = (i = 10)"
| "equals_10 (Val (JFloat r)) = (r = 10)"
| "equals_10 _ = False"

fun notnull :: "cell \<Rightarrow> bool" where
  "notnull NaN = False"
| "notnull (Val JNull) = False"
| "notnull (Val JNaN) = False"
| "notnull _ = True"

definition round_10_panel :: "dataframe \<Rightarrow> py_error + panel" where
  "round_10_panel df =
     (case filter (\<lambda>row. equals_10 (series_get (df_columns df) row (lit ''round'') NaN)) (df_rows df) of
        [] \<Rightarrow> Inr NotYetAvailable
      | r # rs \<Rightarrow>
          (let round_10_latest = last (r # rs);
               node_columns = store_columns (df_columns df)
           in and_then (alias_map node_columns) (\<lambda>node_name_map.
                let performance_data =
                      map (\<lambda>col. (case map_of node_name_map col of None \<Rightarrow> col | Some a \<Rightarrow> a,
                                   series_get (df_columns df) round_10_latest col NaN))
                        (filter (\<lambda>col. notnull (series_get (df_columns df) round_10_latest col NaN))
                           (remdups node_columns))
                in Inr (if performance_data = [] then NoPerformanceData else Bars performance_data))))"

text \<open>Lines 249 to 252: the transaction the link is built from, and the link.\<close>

definition full_block_tx :: pystr where
  "full_block_tx = lit ''0x008a3ef87cb15c2490b8e3029a356812b217e8c2e49389c62945eb125a25722a''"

definition etherscan_link :: "pystr option" where
  "etherscan_link =
     (if full_block_tx \<noteq> [] then Some (lit ''https://sepolia.etherscan.io/tx/'' @ full_block_tx)
      else None)"

text \<open>
  What one call of \<open>render_dashboard_content\<close> hands to the page: the warning for an empty
  table, or the values the widgets are given. The drawing itself is Streamlit's.
\<close>

record view =
  display_frame :: dataframe
  current_round :: int
  accuracy_percent :: pynum
  delta :: pynum
  active_nodes :: nat
  last_update_caption :: cell
  round_10 :: panel
  transaction_link :: "pystr option"

datatype rendering = NoRounds pystr | Dashboard view

definition display_columns :: "pystr list" where
  "display_columns = [lit ''round'', lit ''timestamp'', lit ''global_accuracy'',
                      lit ''ipfs_hash'', lit ''block_tx'', lit ''notes'']"

definition render_dashboard_content ::
  "(pystr \<Rightarrow> py_error + int) \<Rightarrow> (real \<Rightarrow> pyfloat) \<Rightarrow> dataframe \<Rightarrow> int
     \<Rightarrow> py_error + rendering" where
  "render_dashboard_content int_of_str round_float df0 rounds_to_show =
     (if df_empty df0
      then Inr (NoRounds (lit ''No rounds in ledger yet. Connect or turn on your aggregator.''))
      else
        (let df = df_tail rounds_to_show df0 in
         and_then (apply_column (\<lambda>v. truncate_hash v 8 8) (lit ''ipfs_hash'') df) (\<lambda>d1.
         and_then (apply_column (\<lambda>v. truncate_hash v 8 8) (lit ''block_tx'') d1) (\<lambda>d2.
         and_then (alias_map (store_columns (df_columns d2))) (\<lambda>rename_map.
         and_then (iloc_last df) (\<lambda>latest.
         and_then (py_int int_of_str (series_get (df_columns df) latest (lit ''round'') (Val (JInt 0)))) (\<lambda>current.
         and_then (accuracy_delta round_float df latest) (\<lambda>dl.
         and_then (getitem (df_columns df) latest (lit ''global_accuracy'')) (\<lambda>latest_acc.
         and_then (to_number latest_acc) (\<lambda>a.
         and_then (last_update (series_get (df_columns df) latest (lit ''timestamp'') (Val (JStr [])))) (\<lambda>caption.
         and_then (require_columns [lit ''round'', lit ''global_accuracy''] df) (\<lambda>_.
         and_then (round_10_panel df) (\<lambda>pnl.
         and_then (require_columns display_columns (rename_columns rename_map d2)) (\<lambda>_.
           Inr (Dashboard
                 \<lparr>display_frame = rename_columns rename_map d2,
                  current_round = current,
                  accuracy_percent = times_num round_float a 100,
                  delta = dl,
                  active_nodes = length (store_columns (df_columns df)),
                  last_update_caption = caption,
                  round_10 = pnl,
                  transaction_link = etherscan_link\<rparr>)))))))))))))))"

section \<open>Refresh cache and poll loop\<close>

text \<open>
  \<open>st.cache_data(ttl=1)\<close> keeps one returned table for one second (ten tenths); a call that
  raises stores nothing.
\<close>

record session =
  io :: world
  cache :: "(nat \<times> dataframe) option"

definition cache_hit :: "session \<Rightarrow> dataframe option" where
  "cache_hit s =
     (case cache s of
        None \<Rightarrow> None
      | Some (stored, df) \<Rightarrow> if now (io s) < stored + 10 then Some df else None)"

definition get_cached_data ::
  "(pystr \<Rightarrow> dataframe \<Rightarrow> py_error + dataframe) \<Rightarrow> (nat \<Rightarrow> fobs) \<Rightarrow> (pystr \<Rightarrow> py_error + json)
     \<Rightarrow> session \<Rightarrow> (py_error + dataframe) \<times> session" where
  "get_cached_data sort_values file loads s =
     (case cache_hit s of
        Some df \<Rightarrow> (Inr df, s)
      | None \<Rightarrow>
          (let (loaded, w) = load_ledger file loads (io s)
           in case and_then loaded (ledger_to_df sort_values) of
                Inl e \<Rightarrow> (Inl e, s\<lparr>io := w\<rparr>)
              | Inr df \<Rightarrow> (Inr df, \<lparr>io = w, cache = Some (now w, df)\<rparr>)))"

text \<open>
  The names the module has bound when line 262 runs: its imports, \<open>LEDGER\<close>, its five
  functions, \<open>placeholder\<close> and \<open>df\<close>. A name that is not bound raises \<open>NameError\<close>.
\<close>

datatype pyobj = Module | Function | PathObj | Placeholder | Frame dataframe | IntObj int

definition module_globals :: "dataframe \<Rightarrow> (pystr \<times> pyobj) list" where
  "module_globals df =
     [(lit ''st'', Module), (lit ''pd'', Module), (lit ''json'', Module), (lit ''Path'', Function),
      (lit ''datetime'', Function), (lit ''time'', Module), (lit ''logging'', Module),
      (lit ''LEDGER'', PathObj), (lit ''truncate_hash'', Function), (lit ''load_ledger'', Function),
      (lit ''ledger_to_df'', Function), (lit ''get_cached_data'', Function),
      (lit ''render_dashboard_content'', Function), (lit ''placeholder'', Placeholder),
      (lit ''df'', Frame df)]"

definition lookup_name :: "(pystr \<times> pyobj) list \<Rightarrow> pystr \<Rightarrow> py_error + pyobj" where
  "lookup_name globals name =
     (case map_of globals name of None \<Rightarrow> Inl (NameError name) | Some v \<Rightarrow> Inr v)"

text \<open>The call \<open>render_dashboard_content(df, rounds_to_show)\<close> of lines 262 and 270.\<close>

definition call_render ::
  "(pystr \<Rightarrow> py_error + int) \<Rightarrow> (real \<Rightarrow> pyfloat) \<Rightarrow> (pystr \<times> pyobj) list
     \<Rightarrow> py_error + rendering" where
  "call_render int_of_str round_float globals =
     and_then (lookup_name globals (lit ''render_dashboard_content'')) (\<lambda>f.
     and_then (lookup_name globals (lit ''df'')) (\<lambda>d.
     and_then (lookup_name globals (lit ''rounds_to_show'')) (\<lambda>n.
       case (d, n) of
         (Frame df, IntObj k) \<Rightarrow> render_dashboard_content int_of_str round_float df k
       | _ \<Rightarrow> Inl TypeError)))"

datatype outcome = Crashed py_error | Finished | Running

record run =
  result :: outcome
  ticks :: nat
  final :: session

definition sleep_5s :: "session \<Rightarrow> session" where
  "sleep_5s s = s\<lparr>io := (io s)\<lparr>now := now (io s) + 50\<rparr>\<rparr>"

text \<open>
  The loop \<open>while True\<close> of lines 266 to 270 has no exit; \<open>fuel\<close> bounds the number of
  iterations observed, and \<open>Running\<close> is the loop still alive when the fuel is used up.
\<close>

fun poll_loop ::
  "(pystr \<Rightarrow> dataframe \<Rightarrow> py_error + dataframe) \<Rightarrow> (pystr \<Rightarrow> py_error + int)
     \<Rightarrow> (real \<Rightarrow> pyfloat) \<Rightarrow> (nat \<Rightarrow> fobs)
     \<Rightarrow> (pystr \<Rightarrow> py_error + json) \<Rightarrow> nat \<Rightarrow> nat \<Rightarrow> session \<Rightarrow> run" where
  "poll_loop sort_values int_of_str round_float file loads 0 n s = \<lparr>result = Running, ticks = n, final = s\<rparr>"
| "poll_loop sort_values int_of_str round_float file loads (Suc fuel) n s =
     (let (fetched, s1) = get_cached_data sort_values file loads (sleep_5s s)
      in case fetched of
           Inl e \<Rightarrow> \<lparr>result = Crashed e, ticks = n, final = s1\<rparr>
         | Inr df \<Rightarrow>
             (case call_render int_of_str round_float (module_globals df) of
                Inl e \<Rightarrow> \<lparr>result = Crashed e, ticks = n, final = s1\<rparr>
              | Inr r \<Rightarrow> poll_loop sort_values int_of_str round_float file loads fuel (Suc n) s1))"

text \<open>Lines 256 to 270: the initial render, then the live update loop when auto-refresh is on.\<close>

definition main_app ::
  "(pystr \<Rightarrow> dataframe \<Rightarrow> py_error + dataframe) \<Rightarrow> (pystr \<Rightarrow> py_error + int)
     \<Rightarrow> (real \<Rightarrow> pyfloat) \<Rightarrow> (nat \<Rightarrow> fobs)
     \<Rightarrow> (pystr \<Rightarrow> py_error + json) \<Rightarrow> bool \<Rightarrow> nat \<Rightarrow> session \<Rightarrow> run" where
  "main_app sort_values int_of_str round_float file loads auto_refresh fuel s =
     (let (fetched, s1) = get_cached_data sort_values file loads s
      in case fetched of
           Inl e \<Rightarrow> \<lparr>result = Crashed e, ticks = 0, final = s1\<rparr>
         | Inr df \<Rightarrow>
             (case call_render int_of_str round_float (module_globals df) of
                Inl e \<Rightarrow> \<lparr>result = Crashed e, ticks = 0, final = s1\<rparr>
              | Inr r \<Rightarrow>
                  if auto_refresh then poll_loop sort_values int_of_str round_float file loads fuel 1 s1
                  else \<lparr>result = Finished, ticks = 1, final = s1\<rparr>))"

definition session0 :: session where
  "session0 = \<lparr>io = world0, cache = None\<rparr>"

text \<open>Two lists of node columns of the same length, for concrete runs.\<close>

definition two_nodes :: "pystr list" where
  "two_nodes = [lit ''Store_s1'', lit ''Store_s2'']"

definition two_other_nodes :: "pystr list" where
  "two_other_nodes = [lit ''Store_9f3c'', lit ''Store_north'']"

text \<open>
  Sample ledgers: the two rounds of the end-to-end scenario, and four records whose rounds
  are 3, 1, 2, 1, told apart by their notes.
\<close>

definition make_record :: "int \<Rightarrow> real \<Rightarrow> string \<Rightarrow> (pystr \<times> json) list \<Rightarrow> json" where
  "make_record r acc note nodes =
     JObj [(lit ''round'', JInt r), (lit ''timestamp'', JStr (lit ''2024-05-01T10:00:00.5'')),
           (lit ''global_accuracy'', JFloat acc), (lit ''ipfs_hash'', JStr (lit ''Qm1'')),
           (lit ''block_tx'', JStr (lit ''0xabc'')), (lit ''node_accuracies'', JObj nodes),
           (lit ''notes'', JStr (lit note))]"

definition e2e_records :: "json list" where
  "e2e_records =
     [make_record 1 0.5 ''first'' [(lit ''s1'', JFloat 0.5)],
      make_record 2 0.62 ''second'' [(lit ''s1'', JFloat 0.6), (lit ''s2'', JFloat 0.64)]]"

definition e2e_ledger :: json where
  "e2e_ledger = JArr e2e_records"

definition records_3121 :: "json list" where
  "records_3121 =
     [make_record 3 0.7 ''a'' [], make_record 1 0.5 ''b'' [],
      make_record 2 0.6 ''c'' [], make_record 1 0.5 ''d'' []]"

definition ledger_3121 :: json where
  "ledger_3121 = JArr records_3121"

text \<open>The \<open>round\<close> and \<open>notes\<close> cells of each row of a reshaped table, in row order.\<close>

definition rounds_and_notes :: "py_error + dataframe \<Rightarrow> (cell option \<times> cell option) list" where
  "rounds_and_notes r =
     (case r of
        Inl e \<Rightarrow> []
      | Inr df \<Rightarrow> map (\<lambda>row. (cell_at (df_columns df) row (lit ''round''),
                               cell_at (df_columns df) row (lit ''notes''))) (df_rows df))"

definition round_of :: "json \<Rightarrow> int" where
  "round_of entry = (case subscript entry (lit ''round'') of Inr (JInt i) \<Rightarrow> i | _ \<Rightarrow> 0)"

text \<open>
  For concrete runs: an \<open>int\<close> that accepts no string, a rounding that leaves its argument
  as it is (the one of the runs whose exact results are doubles), the reshaped table of
  the end-to-end scenario, and the value a call of \<open>render_dashboard_content\<close> shows in one
  widget.
\<close>

definition reject_str :: "pystr \<Rightarrow> py_error + int" where
  "reject_str s = Inl ValueError"

definition exact_float :: "real \<Rightarrow> pyfloat" where
  "exact_float r = Finite r"

definition e2e_table :: dataframe where
  "e2e_table =
     \<lparr>df_columns = [lit ''round'', lit ''timestamp'', lit ''global_accuracy'', lit ''ipfs_hash'',
                     lit ''block_tx'', lit ''notes'', lit ''Store_s1'', lit ''Store_s2''],
      df_rows = [[Val (JInt 1), Val (JStr (lit ''2024-05-01T10:00:00.5'')), Val (JFloat 0.5),
                  Val (JStr (lit ''Qm1'')), Val (JStr (lit ''0xabc'')), Val (JStr (lit ''first'')),
                  Val (JFloat 0.5), NaN],
                 [Val (JInt 2), Val (JStr (lit ''2024-05-01T10:00:00.5'')), Val (JFloat 0.62),
                  Val (JStr (lit ''Qm1'')), Val (JStr (lit ''0xabc'')), Val (JStr (lit ''second'')),
                  Val (JFloat 0.6), Val (JFloat 0.64)]]\<rparr>"



definition shown :: "(view \<Rightarrow> 'a) \<Rightarrow> py_error + rendering \<Rightarrow> 'a option" where
  "shown field r = (case r of Inr (Dashboard v) \<Rightarrow> Some (field v) | _ \<Rightarrow> None)"




definition number_file :: "nat \<Rightarrow> fobs" where
  "number_file n = Text (lit ''[7]'')"




section \<open>Properties of the reader\<close>

lemma read_and_parse_counts:
  "opens (snd (read_and_parse file loads w)) = opens w + 1"
  by (simp add: read_and_parse_def Let_def split: fobs.split)


lemma ledger_to_df_nil: "ledger_to_df sort_values (JArr []) = Inr empty_frame"
  by (simp add: ledger_to_df_def)

text \<open>
  C1, as the code has it. The claim's "for every state of the document" fails for a
  document \<open>f.read()\<close> cannot decode: \<open>UnicodeDecodeError\<close> is not among the two exceptions
  the \<open>except\<close> clauses name, so it reaches the caller.
\<close>

theorem load_ledger_undecodable_raises:
  "fst (load_ledger undecodable_file sample_loads world0) = Inl UnicodeDecodeError"
  by (simp add: load_ledger_def ledger_exists_def read_and_parse_def undecodable_file_def
      world0_def caught_def Let_def)

text \<open>
  C1 (amended): for every document whose accesses find it absent or find text, with a
  parser that fails with \<open>JSONDecodeError\<close> only, \<open>load_ledger\<close> returns a value and never
  raises; it returns the empty list when the document is missing, when its content is
  empty, and when the first attempt and the single retry both fail; and \<open>ledger_to_df\<close> of
  the empty list is the empty table.
\<close>

theorem load_ledger_empty_safe:
  assumes "readable file" and "decode_errors_only loads"
  shows "(\<exists>v. fst (load_ledger file loads w) = Inr v)
    \<and> (file (accesses w) = Absent \<longrightarrow> fst (load_ledger file loads w) = Inr (JArr []))
    \<and> (file (accesses w) \<noteq> Absent \<and> file (Suc (accesses w)) = Text []
          \<longrightarrow> fst (load_ledger file loads w) = Inr (JArr []))
    \<and> (file (accesses w) \<noteq> Absent \<and> attempt_fails file loads (Suc (accesses w))
          \<and> attempt_fails file loads (Suc (Suc (accesses w)))
          \<longrightarrow> fst (load_ledger file loads w) = Inr (JArr []))
    \<and> ledger_to_df sort_values (JArr []) = Inr empty_frame"
proof -
  have r: "\<And>n. file n \<noteq> Undecodable"
    using assms(1) by (simp add: readable_def)
  have l: "\<And>c e. loads c = Inl e \<Longrightarrow> e = JSONDecodeError"
    using assms(2) by (simp add: decode_errors_only_def)
  have returns: "\<exists>v. fst (load_ledger file loads w) = Inr v"
    using r l
    by (auto simp: load_ledger_def ledger_exists_def read_and_parse_def sleep_100ms_def
        caught_def Let_def split: fobs.split sum.split prod.split)
  have missing: "file (accesses w) = Absent \<longrightarrow> fst (load_ledger file loads w) = Inr (JArr [])"
    by (simp add: load_ledger_def ledger_exists_def)
  have empty: "file (accesses w) \<noteq> Absent \<and> file (Suc (accesses w)) = Text []
      \<longrightarrow> fst (load_ledger file loads w) = Inr (JArr [])"
    by (simp add: load_ledger_def ledger_exists_def read_and_parse_def Let_def)
  have twice: "file (accesses w) \<noteq> Absent \<and> attempt_fails file loads (Suc (accesses w))
      \<and> attempt_fails file loads (Suc (Suc (accesses w)))
      \<longrightarrow> fst (load_ledger file loads w) = Inr (JArr [])"
    by (auto simp: load_ledger_def ledger_exists_def read_and_parse_def sleep_100ms_def
        attempt_fails_def caught_def Let_def split: fobs.splits sum.split prod.split)
  show ?thesis
    using returns missing empty twice ledger_to_df_nil by blast
qed

lemma readable_absent: "readable absent_file"
  by (simp add: readable_def absent_file_def)

lemma readable_empty: "readable empty_file"
  by (simp add: readable_def empty_file_def)

lemma readable_truncated: "readable truncated_file"
  by (simp add: readable_def truncated_file_def)

lemma sample_loads_decode_errors_only: "decode_errors_only sample_loads"
  by (simp add: decode_errors_only_def sample_loads_def)

lemma lit_truncated_neq: "lit ''[7'' \<noteq> lit ''[7]''" "lit ''[7'' \<noteq> []" "lit ''[7]'' \<noteq> []"
  by (simp_all add: lit_def)

theorem load_ledger_empty_safe_witness:
  "fst (load_ledger absent_file sample_loads world0) = Inr (JArr [])
   \<and> fst (load_ledger empty_file sample_loads world0) = Inr (JArr [])
   \<and> fst (load_ledger truncated_file sample_loads world0) = Inr (JArr [])
   \<and> ledger_to_df stable_sort_values (JArr []) = Inr empty_frame"
proof -
  have a: "fst (load_ledger absent_file sample_loads world0) = Inr (JArr [])"
    using load_ledger_empty_safe [OF readable_absent sample_loads_decode_errors_only, of world0]
    by (simp add: absent_file_def)
  have e: "fst (load_ledger empty_file sample_loads world0) = Inr (JArr [])"
    using load_ledger_empty_safe [OF readable_empty sample_loads_decode_errors_only, of world0]
    by (simp add: empty_file_def)
  have t: "fst (load_ledger truncated_file sample_loads world0) = Inr (JArr [])"
    using load_ledger_empty_safe [OF readable_truncated sample_loads_decode_errors_only, of world0]
    by (simp add: truncated_file_def attempt_fails_def sample_loads_def lit_truncated_neq)
  have s: "ledger_to_df stable_sort_values (JArr []) = Inr empty_frame"
    using load_ledger_empty_safe [OF readable_absent sample_loads_decode_errors_only, of world0]
    by simp
  show ?thesis using a e t s by simp
qed




section \<open>Properties of the display formatter\<close>

text \<open>
  The slice \<open>hash_string[-end_chars:]\<close> is the whole string when \<open>end_chars\<close> is zero, so the
  result is then longer than the input.
\<close>

lemma truncate_hash_zero_end_chars:
  "truncate_hash (Val (JStr (lit ''abcdef''))) 2 0 = Val (JStr (lit ''ab...abcdef''))"
  by (simp add: truncate_hash_def lit_def slice_to_def slice_from_def)

text \<open>
  C5, as the code has it. The value the claim gives for the sample hash is not what
  \<open>truncate_hash\<close> returns: the last eight characters of the sample are \<open>5a25722a\<close>.
\<close>

theorem truncate_hash_sample_differs:
  "truncate_hash (Val (JStr sample_hash)) 8 8 \<noteq> Val (JStr (lit ''0x008a3e...e5722a''))"
  by (simp add: truncate_hash_def sample_hash_def lit_def slice_to_def slice_from_def)

lemma truncate_hash_sample:
  "truncate_hash (Val (JStr sample_hash)) 8 8 = Val (JStr (lit ''0x008a3e...5a25722a''))"
  by (simp add: truncate_hash_def sample_hash_def lit_def slice_to_def slice_from_def)

text \<open>
  C5 (amended): for a non-negative \<open>start_chars\<close> and a positive \<open>end_chars\<close>, a string longer
  than \<open>start_chars + end_chars\<close> becomes its first \<open>start_chars\<close> characters, then \<open>...\<close>, then
  its last \<open>end_chars\<close> characters; a string of at most that length and a value that is not a
  string are returned unchanged; with the defaults 8 and 8 the sample hash becomes
  \<open>0x008a3e...5a25722a\<close> and a string of at most 16 characters is unchanged.
\<close>

theorem truncate_hash_spec:
  assumes "0 \<le> start_chars" and "0 < end_chars"
  shows "(int (length s) > start_chars + end_chars \<longrightarrow>
            truncate_hash (Val (JStr s)) start_chars end_chars =
              Val (JStr (take (nat start_chars) s @ lit ''...'' @ drop (length s - nat end_chars) s)))
       \<and> (int (length s) \<le> start_chars + end_chars \<longrightarrow>
            truncate_hash (Val (JStr s)) start_chars end_chars = Val (JStr s))
       \<and> (\<not> is_str v \<longrightarrow> truncate_hash v start_chars end_chars = v)
       \<and> truncate_hash (Val (JStr sample_hash)) 8 8 = Val (JStr (lit ''0x008a3e...5a25722a''))
       \<and> (length t \<le> 16 \<longrightarrow> truncate_hash (Val (JStr t)) 8 8 = Val (JStr t))"
proof -
  have "nat (int (length s) - end_chars) = length s - nat end_chars"
    using assms by linarith
  then have long: "int (length s) > start_chars + end_chars \<longrightarrow>
            truncate_hash (Val (JStr s)) start_chars end_chars =
              Val (JStr (take (nat start_chars) s @ lit ''...'' @ drop (length s - nat end_chars) s))"
    using assms by (simp add: truncate_hash_def slice_to_def slice_from_def)
  have short: "int (length s) \<le> start_chars + end_chars \<longrightarrow>
            truncate_hash (Val (JStr s)) start_chars end_chars = Val (JStr s)"
    by (simp add: truncate_hash_def)
  have other: "\<not> is_str v \<longrightarrow> truncate_hash v start_chars end_chars = v"
    by (cases v rule: is_str.cases) (simp_all add: truncate_hash_def)
  have short16: "length t \<le> 16 \<longrightarrow> truncate_hash (Val (JStr t)) 8 8 = Val (JStr t)"
    by (simp add: truncate_hash_def)
  show ?thesis
    using long short other short16 truncate_hash_sample by blast
qed

theorem truncate_hash_spec_witness:
  "truncate_hash (Val (JStr (lit ''abcdefghij''))) 2 3 = Val (JStr (lit ''ab...hij''))
   \<and> truncate_hash (Val (JStr (lit ''abcde''))) 2 3 = Val (JStr (lit ''abcde''))
   \<and> truncate_hash (Val (JInt 5)) 2 3 = Val (JInt 5)
   \<and> truncate_hash (Val (JStr (lit ''0123456789abcdef''))) 8 8 = Val (JStr (lit ''0123456789abcdef''))"
proof -
  have h: "(0::int) \<le> 2" "(0::int) < 3"
    by simp_all
  show ?thesis
    using truncate_hash_spec [OF h, of "lit ''abcdefghij''" "Val (JInt 5)" "lit ''0123456789abcdef''"]
      truncate_hash_spec [OF h, of "lit ''abcde''" "Val (JInt 5)" "lit ''0123456789abcdef''"]
    by (simp add: lit_def)
qed

lemma dict_set_fresh: "k \<notin> fst ` set d \<Longrightarrow> dict_set d k v = d @ [(k, v)]"
  by (induction d) auto

lemma map_of_snd_zip: "length xs = length ys \<Longrightarrow> map (\<lambda>x. g (snd x)) (zip xs ys) = map g ys"
  by (induction xs ys rule: list_induct2) simp_all

lemma alias_loop_explicit:
  assumes "distinct cols" and "set cols \<inter> fst ` set name_map = {}"
    and "65 + i + length cols \<le> 1114112"
  shows "alias_loop i cols name_map =
           Inr (name_map @ map (\<lambda>(col, j). (col, lit ''Store_'' @ [65 + j])) (zip cols [i..<i + length cols]))"
  using assms
proof (induction cols arbitrary: i name_map)
  case Nil
  then show ?case by simp
next
  case (Cons col cols)
  have fresh: "col \<notin> fst ` set name_map"
    using Cons.prems(2) by auto
  have rest: "set cols \<inter> fst ` set (name_map @ [(col, lit ''Store_'' @ [65 + i])]) = {}"
    using Cons.prems(1,2) by auto
  have "alias_loop (Suc i) cols (name_map @ [(col, lit ''Store_'' @ [65 + i])]) =
      Inr ((name_map @ [(col, lit ''Store_'' @ [65 + i])]) @
        map (\<lambda>(col, j). (col, lit ''Store_'' @ [65 + j])) (zip cols [Suc i..<Suc i + length cols]))"
    using Cons.IH [OF _ rest, of "Suc i"] Cons.prems(1,3) by simp
  moreover have "[i..<i + length (col # cols)] = i # [Suc i..<Suc i + length cols]"
    by (simp add: upt_rec)
  ultimately show ?case
    using Cons.prems(3) fresh by (simp add: py_chr_def and_then_def dict_set_fresh)
qed

lemma alias_loop_positional:
  assumes "length cs1 = length cs2" and "distinct cs1" and "distinct cs2"
    and "set cs1 \<inter> fst ` set m1 = {}" and "set cs2 \<inter> fst ` set m2 = {}"
    and "map snd m1 = map snd m2"
  shows "and_then (alias_loop i cs1 m1) (\<lambda>m. Inr (map snd m)) =
         and_then (alias_loop i cs2 m2) (\<lambda>m. Inr (map snd m))"
  using assms
proof (induction cs1 cs2 arbitrary: i m1 m2 rule: list_induct2)
  case Nil
  then show ?case by (simp add: and_then_def)
next
  case (Cons c1 cs1 c2 cs2)
  show ?case
  proof (cases "65 + i < 1114112")
    case False
    then show ?thesis by (simp add: py_chr_def and_then_def)
  next
    case True
    let ?a = "lit ''Store_'' @ [65 + i]"
    have f1: "dict_set m1 c1 ?a = m1 @ [(c1, ?a)]" and f2: "dict_set m2 c2 ?a = m2 @ [(c2, ?a)]"
      using Cons.prems(3,4) by (auto intro: dict_set_fresh)
    have "and_then (alias_loop (Suc i) cs1 (m1 @ [(c1, ?a)])) (\<lambda>m. Inr (map snd m)) =
          and_then (alias_loop (Suc i) cs2 (m2 @ [(c2, ?a)])) (\<lambda>m. Inr (map snd m))"
      using Cons.prems by (intro Cons.IH) auto
    then show ?thesis
      using True by (simp add: py_chr_def and_then_def f1 f2)
  qed
qed

text \<open>
  C7: the aliases the relabelling loop gives to a list of distinct node columns depend on
  the length of the list only: two such lists of equal length get the same sequence of
  aliases (or both make \<open>chr\<close> fail), and up to 26 columns the sequence is \<open>Store_A\<close>,
  \<open>Store_B\<close>, \<open>Store_C\<close> and so on by position. The columns of a table are distinct.
\<close>

theorem aliases_positional:
  assumes "distinct cs1" and "distinct cs2" and "length cs1 = length cs2"
  shows "aliases cs1 = aliases cs2
       \<and> (length cs1 \<le> 26 \<longrightarrow>
            aliases cs1 = Inr (map (\<lambda>j. lit ''Store_'' @ [65 + j]) [0..<length cs1]))"
proof -
  have same: "aliases cs1 = aliases cs2"
    using alias_loop_positional [OF assms(3) assms(1) assms(2), of "[]" "[]" 0]
    by (simp add: aliases_def alias_map_def)
  have "aliases cs1 = Inr (map (\<lambda>j. lit ''Store_'' @ [65 + j]) [0..<length cs1])"
    if "length cs1 \<le> 26"
  proof -
    have "alias_map cs1 = Inr (map (\<lambda>(col, j). (col, lit ''Store_'' @ [65 + j])) (zip cs1 [0..<length cs1]))"
      using alias_loop_explicit [OF assms(1), of "[]" 0] that by (simp add: alias_map_def)
    moreover have "map snd (map (\<lambda>(col, j). (col, lit ''Store_'' @ [65 + j])) (zip cs1 [0..<length cs1])) =
        map (\<lambda>j. lit ''Store_'' @ [65 + j]) [0..<length cs1]"
      using map_of_snd_zip [of cs1 "[0..<length cs1]" "\<lambda>j. lit ''Store_'' @ [65 + j]"]
      by (simp add: case_prod_beta comp_def)
    ultimately show ?thesis
      by (simp add: aliases_def and_then_def)
  qed
  with same show ?thesis by blast
qed

theorem aliases_positional_witness:
  "aliases two_nodes = aliases two_other_nodes
   \<and> aliases two_nodes = Inr [lit ''Store_A'', lit ''Store_B'']"
proof -
  have d1: "distinct two_nodes" and d2: "distinct two_other_nodes"
    and l: "length two_nodes = length two_other_nodes"
    by (simp_all add: two_nodes_def two_other_nodes_def lit_def)
  have n: "[0..<length two_nodes] = [0, 1]" and s: "length two_nodes \<le> 26"
    by (simp_all add: two_nodes_def upt_rec)
  have "aliases two_nodes = aliases two_other_nodes"
    and "aliases two_nodes = Inr (map (\<lambda>j. lit ''Store_'' @ [65 + j]) [0..<length two_nodes])"
    using aliases_positional [OF d1 d2 l] s by blast+
  then show ?thesis
    by (simp add: n lit_def)
qed

section \<open>Properties of the reshaper\<close>

lemma dict_update_fresh:
  "distinct (map fst kvs) \<Longrightarrow> fst ` set kvs \<inter> fst ` set d = {} \<Longrightarrow> dict_update d kvs = d @ kvs"
proof (induction kvs arbitrary: d)
  case Nil
  then show ?case by (simp add: dict_update_def)
next
  case (Cons kv kvs)
  obtain k v where kv: "kv = (k, v)" by (cases kv)
  have fresh: "k \<notin> fst ` set d"
    using Cons.prems(2) kv by auto
  have "dict_update (d @ [(k, v)]) kvs = (d @ [(k, v)]) @ kvs"
    using Cons.prems kv by (intro Cons.IH) auto
  then show ?case
    using fresh by (simp add: dict_update_def kv dict_set_fresh)
qed

lemma store_not_fixed: "lit ''Store_'' @ k \<notin> set fixed_columns"
  by (simp add: fixed_columns_def lit_def)

lemma map_of_prefixed: "map_of (map (\<lambda>(k, v). (p @ k, v)) kvs) (p @ k) = map_of kvs k"
  by (induction kvs) auto

lemma map_of_prefixed_other:
  "\<forall>k. c \<noteq> p @ k \<Longrightarrow> map_of (map (\<lambda>(k, v). (p @ k, v)) kvs) c = None"
  by (induction kvs) auto

lemma prefixed_distinct:
  "distinct (map fst kvs) \<Longrightarrow> prefixed kvs = map (\<lambda>(k, v). (lit ''Store_'' @ k, v)) kvs"
proof -
  assume d: "distinct (map fst kvs)"
  have "map fst (map (\<lambda>(k, v). (lit ''Store_'' @ k, v)) kvs) = map (\<lambda>k. lit ''Store_'' @ k) (map fst kvs)"
    by (simp add: case_prod_beta comp_def)
  then have "distinct (map fst (map (\<lambda>(k, v). (lit ''Store_'' @ k, v)) kvs))"
    using d by (simp add: distinct_map inj_on_def)
  then show ?thesis
    using dict_update_fresh [of "map (\<lambda>(k, v). (lit ''Store_'' @ k, v)) kvs" "[]"]
    by (simp add: prefixed_def)
qed

text \<open>The dict the reshaper builds for a well-formed record.\<close>

lemma row_of_entry_well_formed:
  assumes "well_formed_record entry"
  shows "\<exists>fixed. row_of_entry entry =
             Inr (fixed @ map (\<lambda>(k, v). (lit ''Store_'' @ k, v)) (node_accuracies entry))
         \<and> map fst fixed = fixed_columns
         \<and> map_of fixed (lit ''round'') = Some (JInt (round_of entry))
         \<and> distinct (map fst (node_accuracies entry))"
proof -
  obtain d where e: "entry = JObj d"
    using assms by (cases entry) simp_all
  from assms e obtain r t g h b kvs where
    r: "map_of d (lit ''round'') = Some (JInt r)" and
    t: "map_of d (lit ''timestamp'') = Some t" and
    g: "map_of d (lit ''global_accuracy'') = Some g" and
    h: "map_of d (lit ''ipfs_hash'') = Some h" and
    b: "map_of d (lit ''block_tx'') = Some b" and
    n: "map_of d (lit ''node_accuracies'') = Some (JObj kvs)" and
    dk: "distinct (map fst kvs)"
    by (auto simp: has_field_def split: option.splits elim!: is_integer.elims is_number_object.elims)
  define nt where "nt = (case map_of d (lit ''notes'') of None \<Rightarrow> JStr [] | Some v \<Rightarrow> v)"
  let ?fixed = "[(lit ''round'', JInt r), (lit ''timestamp'', t), (lit ''global_accuracy'', g),
                 (lit ''ipfs_hash'', h), (lit ''block_tx'', b), (lit ''notes'', nt)]"
  have na: "node_accuracies entry = kvs"
    by (simp add: node_accuracies_def e n)
  have ro: "round_of entry = r"
    by (simp add: round_of_def e r)
  have disj: "fst ` set (map (\<lambda>(k, v). (lit ''Store_'' @ k, v)) kvs) \<inter> fst ` set ?fixed = {}"
    by (auto simp: lit_def)
  have dm: "distinct (map fst (map (\<lambda>(k, v). (lit ''Store_'' @ k, v)) kvs))"
  proof -
    have "map fst (map (\<lambda>(k, v). (lit ''Store_'' @ k, v)) kvs) = map (\<lambda>k. lit ''Store_'' @ k) (map fst kvs)"
      by (simp add: case_prod_beta comp_def)
    then show ?thesis using dk by (simp add: distinct_map inj_on_def)
  qed
  have "row_of_entry entry = Inr (dict_update ?fixed (prefixed kvs))"
    by (simp add: row_of_entry_def e r t g h b n and_then_def nt_def)
  also have "\<dots> = Inr (?fixed @ map (\<lambda>(k, v). (lit ''Store_'' @ k, v)) kvs)"
    using dict_update_fresh [OF dm disj] by (simp add: prefixed_distinct [OF dk])
  finally have "row_of_entry entry = Inr (?fixed @ map (\<lambda>(k, v). (lit ''Store_'' @ k, v)) (node_accuracies entry))"
    by (simp add: na)
  moreover have "map fst ?fixed = fixed_columns"
    by (simp add: fixed_columns_def)
  moreover have "map_of ?fixed (lit ''round'') = Some (JInt (round_of entry))"
    by (simp add: ro)
  ultimately show ?thesis
    using dk na by blast
qed

lemma build_rows_well_formed:
  "list_all well_formed_record entries \<Longrightarrow> build_rows entries = Inr (map entry_row entries)"
proof (induction entries)
  case Nil
  then show ?case by simp
next
  case (Cons e es)
  then obtain row where "row_of_entry e = Inr row"
    using row_of_entry_well_formed [of e] by auto
  then show ?case
    using Cons by (simp add: and_then_def entry_row_def)
qed

lemma entry_row_lookup_store:
  assumes "well_formed_record entry"
  shows "map_of (entry_row entry) (lit ''Store_'' @ k) = map_of (node_accuracies entry) k"
proof -
  obtain fixed where f: "row_of_entry entry =
      Inr (fixed @ map (\<lambda>(k, v). (lit ''Store_'' @ k, v)) (node_accuracies entry))"
    and c: "map fst fixed = fixed_columns"
    using row_of_entry_well_formed [OF assms] by blast
  have "lit ''Store_'' @ k \<notin> fst ` set fixed"
    using store_not_fixed [of k] c by (metis set_map)
  then have "map_of fixed (lit ''Store_'' @ k) = None"
    by (simp add: map_of_eq_None_iff)
  then show ?thesis
    by (simp add: entry_row_def f map_add_def map_of_prefixed)
qed

lemma entry_row_lookup_round:
  assumes "well_formed_record entry"
  shows "map_of (entry_row entry) (lit ''round'') = Some (JInt (round_of entry))"
proof -
  obtain fixed where f: "row_of_entry entry =
      Inr (fixed @ map (\<lambda>(k, v). (lit ''Store_'' @ k, v)) (node_accuracies entry))"
    and r: "map_of fixed (lit ''round'') = Some (JInt (round_of entry))"
    using row_of_entry_well_formed [OF assms] by blast
  show ?thesis
    by (simp add: entry_row_def f map_add_def r)
qed

lemma entry_row_keys:
  assumes "well_formed_record entry"
  shows "map fst (entry_row entry) =
           fixed_columns @ map (\<lambda>k. lit ''Store_'' @ k) (map fst (node_accuracies entry))"
proof -
  obtain fixed where f: "row_of_entry entry =
      Inr (fixed @ map (\<lambda>(k, v). (lit ''Store_'' @ k, v)) (node_accuracies entry))"
    and c: "map fst fixed = fixed_columns"
    using row_of_entry_well_formed [OF assms] by blast
  show ?thesis
    by (simp add: entry_row_def f c case_prod_beta comp_def)
qed

text \<open>The table \<open>pd.DataFrame\<close> builds.\<close>

lemma first_seen_set: "set (first_seen xs) = set xs"
  by (simp add: first_seen_def)

lemma first_seen_distinct: "distinct (first_seen xs)"
  by (simp add: first_seen_def)

lemma cell_at_frame_row:
  "cell_at cols (frame_row cols d) c =
     (if c \<in> set cols then Some (case map_of d c of None \<Rightarrow> NaN | Some v \<Rightarrow> Val v) else None)"
  by (simp add: cell_at_def frame_row_def map_of_zip_map)

lemma DataFrame_columns_set:
  "set (df_columns (DataFrame dicts)) = (\<Union>d \<in> set dicts. fst ` set d)"
  by (auto simp: DataFrame_def Let_def first_seen_set)

lemma DataFrame_rows:
  "df_rows (DataFrame dicts) = map (frame_row (df_columns (DataFrame dicts))) dicts"
  by (simp add: DataFrame_def Let_def)

lemma DataFrame_columns_well_formed:
  assumes "list_all well_formed_record entries" and "entries \<noteq> []"
  shows "set (df_columns (DataFrame (map entry_row entries))) =
           set fixed_columns \<union>
           (\<lambda>k. lit ''Store_'' @ k) ` (\<Union>e \<in> set entries. fst ` set (node_accuracies e))"
proof -
  have keys: "fst ` set (entry_row e) =
      set fixed_columns \<union> (\<lambda>k. lit ''Store_'' @ k) ` fst ` set (node_accuracies e)"
    if "e \<in> set entries" for e
  proof -
    have "well_formed_record e"
      using assms(1) that by (simp add: list_all_iff)
    then have "set (map fst (entry_row e)) =
        set (fixed_columns @ map (\<lambda>k. lit ''Store_'' @ k) (map fst (node_accuracies e)))"
      by (simp only: entry_row_keys)
    then show ?thesis by (simp add: image_image)
  qed
  have "(\<Union>d \<in> set (map entry_row entries). fst ` set d) =
      (\<Union>e \<in> set entries. set fixed_columns \<union> (\<lambda>k. lit ''Store_'' @ k) ` fst ` set (node_accuracies e))"
    using keys by simp
  also have "\<dots> = set fixed_columns \<union>
      (\<lambda>k. lit ''Store_'' @ k) ` (\<Union>e \<in> set entries. fst ` set (node_accuracies e))"
    using assms(2) by auto
  finally show ?thesis
    by (simp only: DataFrame_columns_set)
qed

lemma round_is_fixed: "lit ''round'' \<in> set fixed_columns"
  by (simp add: fixed_columns_def)

lemma DataFrame_int_column:
  assumes "list_all well_formed_record entries" and "entries \<noteq> []"
  shows "lit ''round'' \<in> set (df_columns (DataFrame (map entry_row entries)))"
    and "int_column (DataFrame (map entry_row entries)) (lit ''round'')"
    and "\<And>e. e \<in> set entries \<Longrightarrow>
           int_key (df_columns (DataFrame (map entry_row entries))) (lit ''round'')
             (frame_row (df_columns (DataFrame (map entry_row entries))) (entry_row e)) = round_of e"
proof -
  let ?cols = "df_columns (DataFrame (map entry_row entries))"
  show c: "lit ''round'' \<in> set ?cols"
    using DataFrame_columns_well_formed [OF assms] round_is_fixed by simp
  have cell: "cell_at ?cols (frame_row ?cols (entry_row e)) (lit ''round'') = Some (Val (JInt (round_of e)))"
    if "e \<in> set entries" for e
  proof -
    have "well_formed_record e"
      using assms(1) that by (simp add: list_all_iff)
    then show ?thesis
      using c by (simp add: cell_at_frame_row entry_row_lookup_round)
  qed
  show "int_column (DataFrame (map entry_row entries)) (lit ''round'')"
    unfolding int_column_def DataFrame_rows using cell by auto
  show "\<And>e. e \<in> set entries \<Longrightarrow> int_key ?cols (lit ''round'') (frame_row ?cols (entry_row e)) = round_of e"
    using cell by (simp add: int_key_def)
qed

lemma ledger_to_df_well_formed:
  assumes "list_all well_formed_record entries" and "entries \<noteq> []"
  shows "ledger_to_df sort_values (JArr entries) =
           sort_values (lit ''round'') (DataFrame (map entry_row entries))"
  using assms by (simp add: ledger_to_df_def and_then_def build_rows_well_formed)

text \<open>The two sample sorts meet the contract of \<open>sort_values\<close>.\<close>

lemma stable_sort_values_contract: "sort_values_contract stable_sort_values"
  unfolding sort_values_contract_def
proof (intro allI impI)
  fix c df
  assume "c \<in> set (df_columns df) \<and> int_column df c"
  then have "stable_sort_values c df =
      Inr \<lparr>df_columns = df_columns df, df_rows = sort_key (int_key (df_columns df) c) (df_rows df)\<rparr>"
    by (cases df) (simp add: stable_sort_values_def)
  then show "\<exists>rs. stable_sort_values c df = Inr \<lparr>df_columns = df_columns df, df_rows = rs\<rparr>
      \<and> mset rs = mset (df_rows df) \<and> sorted (map (int_key (df_columns df) c) rs)"
    by simp
qed

text \<open>
  The reshaped table of a non-empty list of well-formed records, for any \<open>sort_values\<close>
  that meets the contract: the columns \<open>pd.DataFrame\<close> built, its rows rearranged, ascending
  by round.
\<close>

lemma ledger_to_df_reshapes:
  assumes "sort_values_contract sort_values"
    and "list_all well_formed_record entries" and "entries \<noteq> []"
  shows "\<exists>rs. ledger_to_df sort_values (JArr entries) =
              Inr \<lparr>df_columns = df_columns (DataFrame (map entry_row entries)), df_rows = rs\<rparr>
         \<and> mset rs = mset (map (frame_row (df_columns (DataFrame (map entry_row entries))))
                            (map entry_row entries))
         \<and> sorted (map (int_key (df_columns (DataFrame (map entry_row entries))) (lit ''round'')) rs)"
proof -
  let ?df = "DataFrame (map entry_row entries)"
  have "lit ''round'' \<in> set (df_columns ?df) \<and> int_column ?df (lit ''round'')"
    using DataFrame_int_column(1,2) [OF assms(2,3)] by simp
  then obtain rs where "sort_values (lit ''round'') ?df = Inr \<lparr>df_columns = df_columns ?df, df_rows = rs\<rparr>"
    and "mset rs = mset (df_rows ?df)"
    and "sorted (map (int_key (df_columns ?df) (lit ''round'')) rs)"
    using assms(1) unfolding sort_values_contract_def by blast
  then show ?thesis
    using ledger_to_df_well_formed [OF assms(2,3), of sort_values]
    by (auto simp: DataFrame_rows)
qed

lemma round_keys_of_rows:
  assumes "list_all well_formed_record entries" and "entries \<noteq> []"
    and "mset rs = mset (map (frame_row (df_columns (DataFrame (map entry_row entries))))
                          (map entry_row entries))"
  shows "mset (map (int_key (df_columns (DataFrame (map entry_row entries))) (lit ''round'')) rs) =
           mset (map round_of entries)"
proof -
  let ?cols = "df_columns (DataFrame (map entry_row entries))"
  have "mset (map (int_key ?cols (lit ''round'')) rs) =
      image_mset (int_key ?cols (lit ''round'')) (mset rs)"
    by simp
  also have "\<dots> = mset (map (int_key ?cols (lit ''round'')) (map (frame_row ?cols) (map entry_row entries)))"
    by (simp only: assms(3) mset_map)
  also have "map (int_key ?cols (lit ''round'')) (map (frame_row ?cols) (map entry_row entries)) =
      map round_of entries"
    using DataFrame_int_column(3) [OF assms(1,2)] by simp
  finally show ?thesis .
qed

text \<open>
  The order of the reshaped rows, as far as line 124 determines it: for every non-empty
  list of well-formed records and every \<open>sort_values\<close> that meets the contract, the rows are
  ascending by round and are a rearrangement of one row per record, duplicates kept, so
  the round column is the sorted list of the records' rounds. The order of two rows of the
  same round is the one the sorting algorithm behind \<open>sort_values\<close> gives, which the contract
  leaves open; with the stable instance the rows of each round keep their input order.
\<close>

lemma ledger_to_df_sorted:
  assumes "sort_values_contract sort_values"
    and "list_all well_formed_record entries" and "entries \<noteq> []"
  shows "\<exists>df. ledger_to_df sort_values (JArr entries) = Inr df
     \<and> sorted (map (int_key (df_columns df) (lit ''round'')) (df_rows df))
     \<and> mset (df_rows df) = mset (map (\<lambda>e. frame_row (df_columns df) (entry_row e)) entries)
     \<and> map (int_key (df_columns df) (lit ''round'')) (df_rows df) = sort (map round_of entries)
     \<and> (\<exists>df'. ledger_to_df stable_sort_values (JArr entries) = Inr df'
          \<and> (\<forall>r. filter (\<lambda>row. int_key (df_columns df') (lit ''round'') row = r) (df_rows df') =
                   filter (\<lambda>row. int_key (df_columns df') (lit ''round'') row = r)
                     (map (\<lambda>e. frame_row (df_columns df') (entry_row e)) entries)))"
proof -
  let ?cols = "df_columns (DataFrame (map entry_row entries))"
  obtain rs where df: "ledger_to_df sort_values (JArr entries) = Inr \<lparr>df_columns = ?cols, df_rows = rs\<rparr>"
    and perm: "mset rs = mset (map (frame_row ?cols) (map entry_row entries))"
    and asc: "sorted (map (int_key ?cols (lit ''round'')) rs)"
    using ledger_to_df_reshapes [OF assms] by blast
  have "sort (map round_of entries) = map (int_key ?cols (lit ''round'')) rs"
    using round_keys_of_rows [OF assms(2,3) perm] asc by (intro properties_for_sort) simp_all
  moreover have "\<exists>df'. ledger_to_df stable_sort_values (JArr entries) = Inr df'
      \<and> (\<forall>r. filter (\<lambda>row. int_key (df_columns df') (lit ''round'') row = r) (df_rows df') =
               filter (\<lambda>row. int_key (df_columns df') (lit ''round'') row = r)
                 (map (\<lambda>e. frame_row (df_columns df') (entry_row e)) entries))"
  proof -
    have "lit ''round'' \<in> set ?cols"
      using DataFrame_int_column(1) [OF assms(2,3)] .
    then have "ledger_to_df stable_sort_values (JArr entries) =
        Inr \<lparr>df_columns = ?cols,
             df_rows = sort_key (int_key ?cols (lit ''round'')) (map (frame_row ?cols) (map entry_row entries))\<rparr>"
      using ledger_to_df_well_formed [OF assms(2,3), of stable_sort_values]
      by (simp add: stable_sort_values_def DataFrame_def Let_def)
    then show ?thesis
      by (simp add: sort_key_stable comp_def)
  qed
  ultimately show ?thesis
    using df perm asc by (simp add: comp_def)
qed

lemma records_3121_well_formed: "list_all well_formed_record records_3121"
  by (simp add: records_3121_def make_record_def has_field_def lit_def)

lemma records_3121_rounds: "sort (map round_of records_3121) = [1, 1, 2, 3]"
  by (simp add: records_3121_def make_record_def round_of_def lit_def)

lemma ledger_to_df_sorted_3121:
  "\<exists>df. ledger_to_df stable_sort_values ledger_3121 = Inr df
     \<and> map (int_key (df_columns df) (lit ''round'')) (df_rows df) = [1, 1, 2, 3]"
proof -
  have ne: "records_3121 \<noteq> []"
    by (simp add: records_3121_def)
  show ?thesis
    using ledger_to_df_sorted [OF stable_sort_values_contract records_3121_well_formed ne]
    by (auto simp: ledger_3121_def records_3121_rounds)
qed

text \<open>
  C4: for every non-empty list of well-formed records and every \<open>sort_values\<close> that meets
  the contract, the reshaped table has one row per record; its columns are distinct and are
  exactly the six fixed fields and one \<open>Store_\<close> column per node identifier of any record;
  every row has a cell in every column; the rows are the records' rows rearranged; and in
  the row of a record, the column of a node holds the record's accuracy for that node, or
  the marker \<open>NaN\<close> when the record has no such node.
\<close>

theorem ledger_to_df_full_field_set:
  assumes "sort_values_contract sort_values"
    and "list_all well_formed_record entries" and "entries \<noteq> []"
  shows "\<exists>df. ledger_to_df sort_values (JArr entries) = Inr df
     \<and> length (df_rows df) = length entries
     \<and> distinct (df_columns df)
     \<and> set (df_columns df) =
         set fixed_columns \<union>
         (\<lambda>k. lit ''Store_'' @ k) ` (\<Union>e \<in> set entries. fst ` set (node_accuracies e))
     \<and> (\<forall>row \<in> set (df_rows df). length row = length (df_columns df))
     \<and> mset (df_rows df) = mset (map (\<lambda>e. frame_row (df_columns df) (entry_row e)) entries)
     \<and> (\<forall>e \<in> set entries. \<forall>k. lit ''Store_'' @ k \<in> set (df_columns df) \<longrightarrow>
          cell_at (df_columns df) (frame_row (df_columns df) (entry_row e)) (lit ''Store_'' @ k) =
            Some (case map_of (node_accuracies e) k of None \<Rightarrow> NaN | Some v \<Rightarrow> Val v))"
proof -
  let ?cols = "df_columns (DataFrame (map entry_row entries))"
  obtain rs where df: "ledger_to_df sort_values (JArr entries) = Inr \<lparr>df_columns = ?cols, df_rows = rs\<rparr>"
    and perm: "mset rs = mset (map (frame_row ?cols) (map entry_row entries))"
    using ledger_to_df_reshapes [OF assms] by blast
  have len: "length rs = length entries"
    using perm by (metis length_map size_mset)
  have dist: "distinct ?cols"
    by (simp add: DataFrame_def Let_def first_seen_distinct)
  have cols: "set ?cols = set fixed_columns \<union>
      (\<lambda>k. lit ''Store_'' @ k) ` (\<Union>e \<in> set entries. fst ` set (node_accuracies e))"
    using DataFrame_columns_well_formed [OF assms(2,3)] .
  have full: "\<forall>row \<in> set rs. length row = length ?cols"
  proof
    fix row assume "row \<in> set rs"
    then have "row \<in> set (map (frame_row ?cols) (map entry_row entries))"
      using perm by (metis set_mset_mset)
    then show "length row = length ?cols"
      by (auto simp: frame_row_def)
  qed
  have cells: "\<forall>e \<in> set entries. \<forall>k. lit ''Store_'' @ k \<in> set ?cols \<longrightarrow>
      cell_at ?cols (frame_row ?cols (entry_row e)) (lit ''Store_'' @ k) =
        Some (case map_of (node_accuracies e) k of None \<Rightarrow> NaN | Some v \<Rightarrow> Val v)"
  proof (intro ballI allI impI)
    fix e k assume "e \<in> set entries" and "lit ''Store_'' @ k \<in> set ?cols"
    moreover have "well_formed_record e"
      using assms(2) \<open>e \<in> set entries\<close> by (simp add: list_all_iff)
    ultimately show "cell_at ?cols (frame_row ?cols (entry_row e)) (lit ''Store_'' @ k) =
        Some (case map_of (node_accuracies e) k of None \<Rightarrow> NaN | Some v \<Rightarrow> Val v)"
      by (simp add: cell_at_frame_row entry_row_lookup_store)
  qed
  show ?thesis
    using df len dist cols full perm cells by (simp add: comp_def)
qed

lemma e2e_records_well_formed: "list_all well_formed_record e2e_records"
  by (simp add: e2e_records_def make_record_def has_field_def lit_def)

lemma e2e_first_lacks_s2:
  "hd e2e_records \<in> set e2e_records"
  "map_of (node_accuracies (hd e2e_records)) (lit ''s2'') = None"
  "lit ''s2'' \<in> (\<Union>e \<in> set e2e_records. fst ` set (node_accuracies e))"
  by (auto simp: e2e_records_def make_record_def node_accuracies_def lit_def image_iff)

theorem ledger_to_df_full_field_set_witness:
  "\<exists>df. ledger_to_df stable_sort_values e2e_ledger = Inr df
     \<and> length (df_rows df) = 2
     \<and> lit ''Store_s2'' \<in> set (df_columns df)
     \<and> cell_at (df_columns df) (frame_row (df_columns df) (entry_row (hd e2e_records))) (lit ''Store_s2'')
         = Some NaN"
proof -
  have ne: "e2e_records \<noteq> []" and two: "length e2e_records = 2"
    by (simp_all add: e2e_records_def)
  have s2: "lit ''Store_s2'' = lit ''Store_'' @ lit ''s2''"
    by (simp add: lit_def)
  obtain df where df: "ledger_to_df stable_sort_values (JArr e2e_records) = Inr df"
    and len: "length (df_rows df) = length e2e_records"
    and cols: "set (df_columns df) = set fixed_columns \<union>
         (\<lambda>k. lit ''Store_'' @ k) ` (\<Union>e \<in> set e2e_records. fst ` set (node_accuracies e))"
    and cells: "\<forall>e \<in> set e2e_records. \<forall>k. lit ''Store_'' @ k \<in> set (df_columns df) \<longrightarrow>
          cell_at (df_columns df) (frame_row (df_columns df) (entry_row e)) (lit ''Store_'' @ k) =
            Some (case map_of (node_accuracies e) k of None \<Rightarrow> NaN | Some v \<Rightarrow> Val v)"
    using ledger_to_df_full_field_set [OF stable_sort_values_contract e2e_records_well_formed ne]
    by blast
  have col: "lit ''Store_'' @ lit ''s2'' \<in> set (df_columns df)"
    using cols e2e_first_lacks_s2(3) by blast
  have "cell_at (df_columns df) (frame_row (df_columns df) (entry_row (hd e2e_records)))
      (lit ''Store_'' @ lit ''s2'') = Some NaN"
    using cells e2e_first_lacks_s2(1,2) col by simp
  then show ?thesis
    using df len two col by (auto simp: e2e_ledger_def s2)
qed

section \<open>Properties of the rendering\<close>

lemma and_then_Inr [simp]: "and_then (Inr x) f = f x"
  by (simp add: and_then_def)

lemma and_then_Inl [simp]: "and_then (Inl e) f = Inl e"
  by (simp add: and_then_def)

lemma and_then_eq_Inr: "and_then r f = Inr y \<longleftrightarrow> (\<exists>x. r = Inr x \<and> f x = Inr y)"
  by (cases r) simp_all


lemmas render_defs =
  render_dashboard_content_def df_empty_def df_tail_def apply_column_def alias_map_def
  store_columns_def startswith_def py_chr_def iloc_last_def series_get_def cell_at_def
  accuracy_delta_def previous_accuracy_def iloc_second_last_def getitem_def require_columns_def
  round_10_panel_def display_columns_def rename_columns_def etherscan_link_def full_block_tx_def
  truncate_hash_def slice_to_def slice_from_def lit_def Let_def


lemma e2e_table_renders:
  "\<exists>v. render_dashboard_content reject_str exact_float e2e_table 1 = Inr (Dashboard v)"
  by (simp add: render_defs e2e_table_def)





text \<open>
  C8, as the code has it: the link \<open>render_dashboard_content\<close> shows is built from the
  constant of line 249, whatever the table holds.
\<close>

lemma transaction_link_constant:
  "render_dashboard_content int_of_str round_float df0 rounds_to_show = Inr (Dashboard v) \<Longrightarrow>
     transaction_link v = Some (lit ''https://sepolia.etherscan.io/tx/'' @ full_block_tx)"
  by (auto simp: render_dashboard_content_def Let_def and_then_eq_Inr etherscan_link_def
      full_block_tx_def lit_def split: if_splits)

theorem transaction_link_ignores_block_tx:
  "getitem (df_columns e2e_table) (last (df_rows e2e_table)) (lit ''block_tx'') =
     Inr (Val (JStr (lit ''0xabc'')))
   \<and> shown transaction_link (render_dashboard_content reject_str exact_float e2e_table 1) =
       Some (Some (lit ''https://sepolia.etherscan.io/tx/0x008a3ef87cb15c2490b8e3029a356812b217e8c2e49389c62945eb125a25722a''))"
proof -
  obtain v where v: "render_dashboard_content reject_str exact_float e2e_table 1 = Inr (Dashboard v)"
    using e2e_table_renders by blast
  have "transaction_link v = Some (lit ''https://sepolia.etherscan.io/tx/'' @ full_block_tx)"
    using transaction_link_constant [OF v] .
  moreover have "getitem (df_columns e2e_table) (last (df_rows e2e_table)) (lit ''block_tx'') =
     Inr (Val (JStr (lit ''0xabc'')))"
    by (simp add: getitem_def cell_at_def e2e_table_def lit_def)
  ultimately show ?thesis
    by (simp add: shown_def v full_block_tx_def lit_def)
qed

section \<open>Properties of the cache and the poll loop\<close>





lemma call_render_unbound:
  "call_render int_of_str round_float (module_globals df) = Inl (NameError (lit ''rounds_to_show''))"
  by (simp add: call_render_def lookup_name_def module_globals_def lit_def)












lemma rounds_to_show_unbound: "map_of (module_globals df) (lit ''rounds_to_show'') = None"
  by (simp add: module_globals_def lit_def)

lemma number_load:
  "load_ledger number_file sample_loads world0 =
     (Inr (JArr [JInt 7]), \<lparr>accesses = 2, opens = 1, now = 0\<rparr>)"
  by (simp add: world0_def load_ledger_def ledger_exists_def read_and_parse_def number_file_def
      sample_loads_def lit_def Let_def)

lemma number_reshape: "ledger_to_df stable_sort_values (JArr [JInt 7]) = Inl TypeError"
  by (simp add: ledger_to_df_def row_of_entry_def)

lemma number_fetch:
  "fst (get_cached_data stable_sort_values number_file sample_loads session0) = Inl TypeError"
  by (simp add: get_cached_data_def cache_hit_def session0_def number_load number_reshape)

text \<open>
  C10, as the code has it. The name \<open>rounds_to_show\<close> is evaluated only after line 260 has
  returned a table: for a document that is a list holding a number, \<open>get_cached_data\<close> raises
  \<open>TypeError\<close> first, and the program ends with that error, not with \<open>NameError\<close>.
\<close>

theorem main_app_type_error_first:
  "result (main_app stable_sort_values reject_str exact_float number_file sample_loads True 3 session0) =
     Crashed TypeError"
  using number_fetch
  by (cases "get_cached_data stable_sort_values number_file sample_loads session0")
    (simp add: main_app_def)

text \<open>
  C10 (amended): no binding of the module gives \<open>rounds_to_show\<close> a value. In every execution
  in which the first \<open>get_cached_data\<close> returns a table, whatever the ledger holds, the
  initial render call raises \<open>NameError\<close> for \<open>rounds_to_show\<close>; in every execution the
  program ends with an error before any render completes; and an iteration of the live
  loop ends the same way, completing no further render.
\<close>

theorem main_app_name_error:
  "map_of (module_globals df) (lit ''rounds_to_show'') = None
   \<and> (fst (get_cached_data sort_values file loads s) = Inr df \<longrightarrow>
        result (main_app sort_values int_of_str round_float file loads auto_refresh fuel s) =
          Crashed (NameError (lit ''rounds_to_show'')))
   \<and> (\<exists>e. result (main_app sort_values int_of_str round_float file loads auto_refresh fuel s) = Crashed e)
   \<and> ticks (main_app sort_values int_of_str round_float file loads auto_refresh fuel s) = 0
   \<and> (\<exists>e. result (poll_loop sort_values int_of_str round_float file loads (Suc fuel) n s) = Crashed e)
   \<and> ticks (poll_loop sort_values int_of_str round_float file loads (Suc fuel) n s) = n"
proof -
  obtain fetched s1 where g: "get_cached_data sort_values file loads s = (fetched, s1)"
    by (cases "get_cached_data sort_values file loads s")
  obtain fetched' s1' where g': "get_cached_data sort_values file loads (sleep_5s s) = (fetched', s1')"
    by (cases "get_cached_data sort_values file loads (sleep_5s s)")
  have first: "fst (get_cached_data sort_values file loads s) = Inr df \<longrightarrow>
      result (main_app sort_values int_of_str round_float file loads auto_refresh fuel s) =
        Crashed (NameError (lit ''rounds_to_show''))"
    by (simp add: main_app_def g call_render_unbound)
  have crash: "\<exists>e. result (main_app sort_values int_of_str round_float file loads auto_refresh fuel s) = Crashed e"
    by (cases fetched) (simp_all add: main_app_def g call_render_unbound)
  have none: "ticks (main_app sort_values int_of_str round_float file loads auto_refresh fuel s) = 0"
    by (cases fetched) (simp_all add: main_app_def g call_render_unbound)
  have loop: "\<exists>e. result (poll_loop sort_values int_of_str round_float file loads (Suc fuel) n s) = Crashed e"
    by (cases fetched') (simp_all add: g' call_render_unbound)
  have same: "ticks (poll_loop sort_values int_of_str round_float file loads (Suc fuel) n s) = n"
    by (cases fetched') (simp_all add: g' call_render_unbound)
  show ?thesis
    using rounds_to_show_unbound first crash none loop same by blast
qed

lemma absent_fetch:
  "fst (get_cached_data stable_sort_values absent_file sample_loads session0) = Inr empty_frame"
  by (simp add: get_cached_data_def cache_hit_def session0_def world0_def load_ledger_def
      ledger_exists_def absent_file_def ledger_to_df_def Let_def)

theorem main_app_name_error_witness:
  "result (main_app stable_sort_values reject_str exact_float absent_file sample_loads True 3 session0) =
     Crashed (NameError (lit ''rounds_to_show''))
   \<and> ticks (main_app stable_sort_values reject_str exact_float absent_file sample_loads True 3 session0) = 0"
  using main_app_name_error [of empty_frame stable_sort_values absent_file sample_loads session0
      reject_str exact_float True 3 0] absent_fetch
  by simp

end
